theory Spec2Isabelle
  imports Complex_Main
begin

section \<open>The battle front end (web/battle.js)\<close>

text \<open>
  A shallow embedding of the browser front end of the battle simulator. JavaScript
  numbers that the page receives as integers (base stats, levels, hit points, turn
  numbers) are modelled as \<^typ>\<open>int\<close>; arithmetic on them that leaves the integers
  (the division by 100 of the stat formula) is carried out in \<^typ>\<open>real\<close> and brought back by
  \<open>\<lfloor>_\<rfloor>\<close>, as \<open>Math.floor\<close> does. The doubles of JavaScript hold these integers
  exactly and their quotients closely enough for the floor to be that of the exact
  quotient while the values stay far below \<open>2^53\<close>, as stats, levels and hit points do.
  Strings are byte lists. Functions that are \<open>async\<close> are run without interleaving.
\<close>

subsection \<open>Type colours\<close>

text \<open>The object literal \<open>typeColors\<close>, with its keys in source order.\<close>

definition typeColors :: "(string \<times> string) list" where
  "typeColors =
    [(''normal'', ''#a8a878''),
     (''fire'', ''#f08030''),
     (''water'', ''#6890f0''),
     (''electric'', ''#f8d030''),
     (''grass'', ''#78c850''),
     (''ice'', ''#98d8d8''),
     (''fighting'', ''#c03028''),
     (''poison'', ''#a040a0''),
     (''ground'', ''#e0c068''),
     (''flying'', ''#a890f0''),
     (''psychic'', ''#f85888''),
     (''bug'', ''#a8b820''),
     (''rock'', ''#b8a038''),
     (''ghost'', ''#705898''),
     (''dragon'', ''#7038f8''),
     (''dark'', ''#705848''),
     (''steel'', ''#b8b8d0''),
     (''fairy'', ''#ee99ac'')]"

subsection \<open>Stats at a level\<close>

text \<open>
  The object \<open>base_stats\<close> of a loaded species and the object returned by
  \<open>calculateStatsAtLevel\<close> have the same six keys.
\<close>

record stats =
  hp :: int
  attack :: int
  defense :: int
  special_attack :: int
  special_defense :: int
  speed :: int

text \<open>\<open>const calcHP = (base, level) => Math.floor(((2 * base * level) / 100) + level + 10)\<close>\<close>

definition calcHP :: "int \<Rightarrow> int \<Rightarrow> int" where
  "calcHP base level =
     \<lfloor>((2 * real_of_int base * real_of_int level) / 100) + real_of_int level + 10\<rfloor>"

text \<open>\<open>const calcStat = (base, level) => Math.floor(((2 * base * level) / 100) + 5)\<close>\<close>

definition calcStat :: "int \<Rightarrow> int \<Rightarrow> int" where
  "calcStat base level = \<lfloor>((2 * real_of_int base * real_of_int level) / 100) + 5\<rfloor>"

definition calculateStatsAtLevel :: "stats \<Rightarrow> int \<Rightarrow> stats" where
  "calculateStatsAtLevel baseStats level =
     \<lparr>hp = calcHP (hp baseStats) level,
      attack = calcStat (attack baseStats) level,
      defense = calcStat (defense baseStats) level,
      special_attack = calcStat (special_attack baseStats) level,
      special_defense = calcStat (special_defense baseStats) level,
      speed = calcStat (speed baseStats) level\<rparr>"

subsection \<open>Strings\<close>

text \<open>
  A number interpolated into a template literal: the decimal digits of an integer, with a
  leading minus sign when it is negative.
\<close>

definition digit_char :: "nat \<Rightarrow> char" where
  "digit_char n = ''0123456789'' ! (n mod 10)"

fun decimalDigits :: "nat \<Rightarrow> string" where
  "decimalDigits n =
     (if 10 \<le> n then decimalDigits (n div 10) @ [digit_char n] else [digit_char n])"

declare decimalDigits.simps [simp del]

definition numberToString :: "int \<Rightarrow> string" where
  "numberToString i =
     (if i < 0 then CHR ''-'' # decimalDigits (nat (- i)) else decimalDigits (nat i))"

text \<open>\<open>String.prototype.toUpperCase\<close> on the ASCII letters; other bytes are kept.\<close>

definition upper_char :: "char \<Rightarrow> char" where
  "upper_char c =
     (let n = (of_char c :: nat) in if 97 \<le> n \<and> n \<le> 122 then char_of (n - 32) else c)"

definition toUpperCase :: "string \<Rightarrow> string" where
  "toUpperCase str = map upper_char str"

text \<open>\<open>String.prototype.includes\<close>: the pattern occurs somewhere in the string.\<close>

fun includesStr :: "string \<Rightarrow> string \<Rightarrow> bool" where
  "includesStr [] pat = (pat = [])"
| "includesStr (c # cs) pat = (take (length pat) (c # cs) = pat \<or> includesStr cs pat)"

text \<open>
  \<open>parseInt(string)\<close> with no radix: leading white space (here that of ASCII) is
  skipped, a sign is read, a prefix \<open>0x\<close> or \<open>0X\<close> selects radix 16, and the longest
  prefix of digits of that radix is the value. With no digit the result is \<open>NaN\<close>, here
  \<open>None\<close>.
\<close>

definition isWhiteSpace :: "char \<Rightarrow> bool" where
  "isWhiteSpace c = (of_char c \<in> {9, 10, 11, 12, 13, 32 :: nat})"

definition digitValue :: "char \<Rightarrow> nat" where
  "digitValue c =
     (let n = (of_char c :: nat) in
      if 48 \<le> n \<and> n \<le> 57 then n - 48
      else if 97 \<le> n \<and> n \<le> 122 then n - 87
      else if 65 \<le> n \<and> n \<le> 90 then n - 55
      else 36)"

definition parseInt :: "string \<Rightarrow> int option" where
  "parseInt str =
     (let s = dropWhile isWhiteSpace str;
          negative = (s \<noteq> [] \<and> hd s = CHR ''-'');
          s1 = (if s \<noteq> [] \<and> (hd s = CHR ''-'' \<or> hd s = CHR ''+'') then tl s else s);
          hex = (take 2 s1 = ''0x'' \<or> take 2 s1 = ''0X'');
          radix = (if hex then 16 else 10 :: nat);
          s2 = (if hex then drop 2 s1 else s1);
          ds = takeWhile (\<lambda>c. digitValue c < radix) s2;
          n = foldl (\<lambda>acc c. acc * radix + digitValue c) 0 ds
      in if ds = [] then None
         else Some (if negative then - int n else int n))"

subsection \<open>Data exchanged with the server\<close>

text \<open>A loaded species (\<open>battleState.pokemon1\<close>): its name and \<open>sprites.front_default\<close>.\<close>

record pokemon_data =
  name :: string
  front_default :: "string option"

text \<open>One side of the object built by \<open>getBattleConfig\<close>; a level of \<open>None\<close> is \<open>NaN\<close>.\<close>

record pokemon_config =
  config_name :: string
  level :: "int option"
  moves :: "string list"

record battle_config =
  config_pokemon1 :: pokemon_config
  config_pokemon2 :: pokemon_config


text \<open>The answer of \<open>/api/battle/simulate\<close>.\<close>

record hp_info =
  current :: int
  max_hp :: int

record status_info =
  condition :: string

record pokemon_state =
  state_hp :: hp_info
  status :: "status_info option"

record battle_event =
  event_type :: string
  message :: string
  pokemon :: "string option"
  defender :: "string option"

text \<open>
  \<open>pokemon_states\<close> is an object keyed by name; it is kept as the list of its entries in
  key order, which is the order \<open>Object.keys\<close> visits them in. \<open>None\<close> is an absent field.
\<close>

record turn_record =
  turn :: int
  events :: "battle_event list"
  pokemon_states :: "(string \<times> pokemon_state) list option"

record participant =
  participant_name :: string
  final_hp :: hp_info

record battle_result =
  winner :: string
  total_turns :: int
  battle_log :: "turn_record list"
  participants_pokemon1 :: participant
  participants_pokemon2 :: participant

text \<open>
  What \<open>startBattle\<close> gets back from \<open>fetch\<close> and \<open>response.json()\<close>: a rejection
  with its message, a result with \<open>success\<close> set, or one without it and perhaps an
  \<open>error\<close> text.
\<close>

datatype simulate_result = Succeeded battle_result | Failed "string option"

datatype fetch_outcome = Rejected string | Resolved simulate_result

record request =
  url :: string
  body :: battle_config

subsection \<open>Errors\<close>

text \<open>
  \<open>TypeError\<close> is what reading or writing a property of \<open>null\<close> throws; \<open>Error\<close> is
  a \<open>throw new Error(...)\<close> or a rejected promise. Both carry their \<open>message\<close>; the
  wording of the first is the engine's.
\<close>

datatype js_error = TypeError string | Error string

definition errorMessage :: "js_error \<Rightarrow> string" where
  "errorMessage e = (case e of TypeError m \<Rightarrow> m | Error m \<Rightarrow> m)"

definition propertyOfNull :: js_error where
  "propertyOfNull = TypeError ''Cannot read properties of null''"

subsection \<open>The page\<close>

text \<open>A created element: its tag, \<open>className\<close> and \<open>textContent\<close>.\<close>

record element =
  tagName :: string
  className :: string
  textContent :: string

text \<open>
  A health percentage is \<open>(current / max) * 100\<close>; with \<open>max = 0\<close> the quotient is
  \<open>NaN\<close> or an infinity.
\<close>

datatype js_number = Finite rat | NaN | PosInfinity | NegInfinity

text \<open>
  The global \<open>battleState\<close> and the properties of the document that the functions below
  read or write. Elements whose id ends in a side number (\<open>healthBar1\<close>,
  \<open>statusEffects2\<close>, ...) are fields indexed by that number; the page has them for the
  sides 1 and 2 only. \<open>fetched\<close> records the requests sent with \<open>fetch\<close>.
  Left out are the animation classes of the sprites and the flash of the body, which
  timers remove again, and the scroll position of the log.
\<close>

record ui_state =
  pokemon1 :: "pokemon_data option"
  pokemon2 :: "pokemon_data option"
  battleInProgress :: bool
  currentBattle :: "battle_result option"
  levelValue :: "nat \<Rightarrow> string"
  moveValue :: "nat \<Rightarrow> nat \<Rightarrow> string"
  validationResults_display :: string
  validationResults_className :: string
  validationList :: "element list"
  battleBtn_disabled :: bool
  battleSetup_display :: string
  battleArena_display :: string
  resultsScreen_display :: string
  battleSprite_src :: "nat \<Rightarrow> string option"
  battleName :: "nat \<Rightarrow> string"
  healthBar_width :: "nat \<Rightarrow> js_number"
  healthBar_className :: "nat \<Rightarrow> string"
  healthText :: "nat \<Rightarrow> string"
  statusEffects :: "nat \<Rightarrow> element list"
  battleLog :: "element list"
  currentTurn :: string
  winnerAnnouncement :: string
  summaryStats :: string
  loadingText :: string
  loadingOverlay_display :: string
  errorText :: string
  errorMessage_display :: string
  fetched :: "request list"

text \<open>An element with a side number in its id exists for the two sides.\<close>

definition sideElement :: "nat \<Rightarrow> bool" where
  "sideElement pokemonNumber = (pokemonNumber = 1 \<or> pokemonNumber = 2)"

text \<open>
  A function that may throw returns the error, if any, with the state reached; \<open>andThen\<close>
  runs the next statement unless one was thrown.
\<close>

type_synonym outcome = "js_error option \<times> ui_state"

definition andThen :: "outcome \<Rightarrow> (ui_state \<Rightarrow> outcome) \<Rightarrow> outcome" where
  "andThen r f = (case r of (None, s) \<Rightarrow> f s | (Some e, s) \<Rightarrow> (Some e, s))"

subsection \<open>Utility functions\<close>

definition showLoading :: "string \<Rightarrow> ui_state \<Rightarrow> ui_state" where
  "showLoading msg s = s\<lparr>loadingText := msg, loadingOverlay_display := ''flex''\<rparr>"

definition hideLoading :: "ui_state \<Rightarrow> ui_state" where
  "hideLoading s = s\<lparr>loadingOverlay_display := ''none''\<rparr>"

definition showError :: "string \<Rightarrow> ui_state \<Rightarrow> ui_state" where
  "showError msg s = s\<lparr>errorText := msg, errorMessage_display := ''flex''\<rparr>"

definition backToSetup :: "ui_state \<Rightarrow> ui_state" where
  "backToSetup s =
     s\<lparr>battleArena_display := ''none'',
       resultsScreen_display := ''none'',
       battleSetup_display := ''block'',
       battleInProgress := False,
       currentBattle := None\<rparr>"

subsection \<open>Texts with characters outside ASCII\<close>



definition partyPopper :: string where
  "partyPopper =
     [CHR 0xC3, CHR 0xB0, CHR 0xC5, CHR 0xB8, CHR 0xC5, CHR 0xBD, CHR 0xE2, CHR 0x80, CHR 0xB0]"

definition handshake :: string where
  "handshake = [CHR 0xC3, CHR 0xB0, CHR 0xC5, CHR 0xB8, CHR 0xC2, CHR 0xA4]"

definition newline :: string where
  "newline = [CHR 0x0A]"

definition indent :: "nat \<Rightarrow> string" where
  "indent n = replicate n CHR '' ''"

subsection \<open>Validation\<close>





subsection \<open>The battle configuration\<close>

text \<open>
  \<open>getMoves\<close>: the loop \<open>for (let i = 1; i <= 4; i++) moves.push(select.value)\<close> over
  the selects of one side.
\<close>

function getMovesLoop :: "ui_state \<Rightarrow> nat \<Rightarrow> nat \<Rightarrow> string list \<Rightarrow> string list" where
  "getMovesLoop s pokemonNumber i acc =
     (if i \<le> 4 then getMovesLoop s pokemonNumber (i + 1) (acc @ [moveValue s pokemonNumber i])
      else acc)"
  by pat_completeness auto
termination
  by (relation "measure (\<lambda>(s, pokemonNumber, i, acc). 5 - i)") auto

declare getMovesLoop.simps [simp del]

definition getMoves :: "ui_state \<Rightarrow> nat \<Rightarrow> string list" where
  "getMoves s pokemonNumber = getMovesLoop s pokemonNumber 1 []"

text \<open>
  \<open>getBattleConfig()\<close> reads \<open>battleState.pokemon1.name\<close> first and
  \<open>battleState.pokemon2.name\<close> after the first side is built; either is a read of a
  property of \<open>null\<close> while that side is not loaded. The state is not changed.
\<close>

definition getBattleConfig :: "ui_state \<Rightarrow> js_error + battle_config" where
  "getBattleConfig s =
     (case pokemon1 s of
        None \<Rightarrow> Inl propertyOfNull
      | Some p1 \<Rightarrow>
          (case pokemon2 s of
             None \<Rightarrow> Inl propertyOfNull
           | Some p2 \<Rightarrow>
               Inr \<lparr>config_pokemon1 =
                      \<lparr>config_name = name p1,
                       level = parseInt (levelValue s 1),
                       moves = getMoves s 1\<rparr>,
                    config_pokemon2 =
                      \<lparr>config_name = name p2,
                       level = parseInt (levelValue s 2),
                       moves = getMoves s 2\<rparr>\<rparr>))"

subsection \<open>Readiness of the battle button\<close>






subsection \<open>The arena\<close>

text \<open>
  \<open>updateHealthBar(pokemonNumber, percentage)\<close>. The width is kept as the number, without
  the percent sign put after it; \<open>js_le\<close> is \<open><=\<close> on numbers, false for \<open>NaN\<close>.
\<close>

definition js_le :: "js_number \<Rightarrow> rat \<Rightarrow> bool" where
  "js_le x r =
     (case x of Finite q \<Rightarrow> q \<le> r | NaN \<Rightarrow> False | PosInfinity \<Rightarrow> False
      | NegInfinity \<Rightarrow> True)"

definition updateHealthBar :: "nat \<Rightarrow> js_number \<Rightarrow> ui_state \<Rightarrow> outcome" where
  "updateHealthBar pokemonNumber percentage s =
     (if \<not> sideElement pokemonNumber then (Some propertyOfNull, s)
      else
        (None,
         s\<lparr>healthBar_width := (healthBar_width s)(pokemonNumber := percentage),
           healthBar_className := (healthBar_className s)
             (pokemonNumber :=
                if js_le percentage 25 then ''health-fill low''
                else if js_le percentage 50 then ''health-fill medium''
                else ''health-fill'')\<rparr>))"

text \<open>
  \<open>updateStatusEffects(pokemonNumber, status)\<close>: the display is emptied, and a badge with
  the condition in upper case is appended when \<open>status\<close> is there and its condition is
  not \<open>none\<close>.
\<close>

definition statusBadge :: "string \<Rightarrow> element" where
  "statusBadge cond =
     \<lparr>tagName = ''span'', className = ''status-badge'', textContent = toUpperCase cond\<rparr>"

definition updateStatusEffects :: "nat \<Rightarrow> status_info option \<Rightarrow> ui_state \<Rightarrow> outcome" where
  "updateStatusEffects pokemonNumber st s =
     (if \<not> sideElement pokemonNumber then (Some propertyOfNull, s)
      else
        (let s1 = s\<lparr>statusEffects := (statusEffects s)(pokemonNumber := [])\<rparr>
         in case st of
              None \<Rightarrow> (None, s1)
            | Some x \<Rightarrow>
                if condition x \<noteq> ''none''
                then (None,
                      s1\<lparr>statusEffects := (statusEffects s1)
                           (pokemonNumber :=
                              statusEffects s1 pokemonNumber @ [statusBadge (condition x)])\<rparr>)
                else (None, s1)))"

definition healthPercentage :: "hp_info \<Rightarrow> js_number" where
  "healthPercentage h =
     (if max_hp h = 0
      then (if current h = 0 then NaN else if 0 < current h then PosInfinity else NegInfinity)
      else Finite (rat_of_int (current h) / rat_of_int (max_hp h) * 100))"

text \<open>
  \<open>updatePokemonStates(states)\<close>: \<open>Object.keys(states).forEach((pokemonName, index) => ...)\<close>
  with \<open>pokemonNumber = index + 1\<close>.
\<close>

fun updatePokemonStatesFrom ::
  "nat \<Rightarrow> (string \<times> pokemon_state) list \<Rightarrow> ui_state \<Rightarrow> outcome" where
  "updatePokemonStatesFrom index [] s = (None, s)"
| "updatePokemonStatesFrom index ((pokemonName, state) # rest) s =
     andThen (updateHealthBar (index + 1) (healthPercentage (state_hp state)) s) (\<lambda>s1.
     andThen (if \<not> sideElement (index + 1) then (Some propertyOfNull, s1)
              else (None,
                    s1\<lparr>healthText := (healthText s1)
                         (index + 1 :=
                            numberToString (current (state_hp state)) @ ''/''
                            @ numberToString (max_hp (state_hp state)) @ '' HP'')\<rparr>)) (\<lambda>s2.
     andThen (updateStatusEffects (index + 1) (status state) s2) (\<lambda>s3.
     updatePokemonStatesFrom (index + 1) rest s3)))"

definition updatePokemonStates :: "(string \<times> pokemon_state) list \<Rightarrow> ui_state \<Rightarrow> outcome" where
  "updatePokemonStates states s = updatePokemonStatesFrom 0 states s"

text \<open>
  \<open>initializeBattleArena(config)\<close>: sprites from \<open>battleState\<close>, names from the
  configuration, full health bars, an empty log and turn 1.
\<close>

definition initializeBattleArena :: "battle_config \<Rightarrow> ui_state \<Rightarrow> outcome" where
  "initializeBattleArena config s =
     (case pokemon1 s of
        None \<Rightarrow> (Some propertyOfNull, s)
      | Some p1 \<Rightarrow>
          (let s1 = s\<lparr>battleSprite_src := (battleSprite_src s)(1 := front_default p1)\<rparr>
           in case pokemon2 s1 of
                None \<Rightarrow> (Some propertyOfNull, s1)
              | Some p2 \<Rightarrow>
                  (let s2 = s1\<lparr>battleSprite_src := (battleSprite_src s1)(2 := front_default p2)\<rparr>;
                       s3 = s2\<lparr>battleName := (battleName s2)
                                 (1 := config_name (config_pokemon1 config))\<rparr>;
                       s4 = s3\<lparr>battleName := (battleName s3)
                                 (2 := config_name (config_pokemon2 config))\<rparr>
                   in andThen (updateHealthBar 1 (Finite 100) s4) (\<lambda>s5.
                      andThen (updateHealthBar 2 (Finite 100) s5) (\<lambda>s6.
                      (None, s6\<lparr>battleLog := [], currentTurn := ''1''\<rparr>))))))"

subsection \<open>Results\<close>

text \<open>\<open>showBattleResults(battleResult)\<close>, with the template of the summary written out.\<close>

definition winsText :: "string \<Rightarrow> string" where
  "winsText w = partyPopper @ '' '' @ w @ '' wins! '' @ partyPopper"

definition drawText :: string where
  "drawText = handshake @ '' It'' @ [CHR 0x27] @ ''s a draw! '' @ handshake"

definition participantLine :: "participant \<Rightarrow> string" where
  "participantLine p =
     ''<li>'' @ participant_name p @ '': '' @ numberToString (current (final_hp p)) @ ''/''
     @ numberToString (max_hp (final_hp p)) @ ''</li>''"

definition summaryHtml :: "battle_result \<Rightarrow> string" where
  "summaryHtml battleResult =
     newline @ indent 8 @ ''<p><strong>Duration:</strong> ''
       @ numberToString (total_turns battleResult) @ '' turns</p>''
     @ newline @ indent 8 @ ''<p><strong>Winner:</strong> '' @ winner battleResult @ ''</p>''
     @ newline @ indent 8 @ ''<p><strong>Final HP:</strong></p>''
     @ newline @ indent 8 @ ''<ul>''
     @ newline @ indent 12 @ participantLine (participants_pokemon1 battleResult)
     @ newline @ indent 12 @ participantLine (participants_pokemon2 battleResult)
     @ newline @ indent 8 @ ''</ul>''
     @ newline @ indent 4"

definition showBattleResults :: "battle_result \<Rightarrow> ui_state \<Rightarrow> ui_state" where
  "showBattleResults battleResult s =
     (let s1 = s\<lparr>battleArena_display := ''none''\<rparr>;
          s2 = s1\<lparr>resultsScreen_display := ''block''\<rparr>;
          s3 = (if winner battleResult \<noteq> ''Draw''
                then s2\<lparr>winnerAnnouncement := winsText (winner battleResult)\<rparr>
                else s2\<lparr>winnerAnnouncement := drawText\<rparr>);
          s4 = s3\<lparr>summaryStats := summaryHtml battleResult\<rparr>
      in s4\<lparr>battleInProgress := False\<rparr>)"

subsection \<open>Animating a battle\<close>

definition getLogClass :: "battle_event \<Rightarrow> string" where
  "getLogClass event =
     (if event_type event = ''move_use'' then ''log-move''
      else if event_type event = ''damage'' then ''log-damage''
      else if event_type event = ''effectiveness'' then
        (if includesStr (message event) ''super effective''
         then ''log-effectiveness super-effective''
         else if includesStr (message event) ''not very effective''
         then ''log-effectiveness not-very-effective''
         else ''log-effectiveness'')
      else if event_type event = ''critical'' then ''log-critical''
      else if event_type event = ''faint'' then ''log-faint''
      else [])"

text \<open>
  \<open>animateEvent(event)\<close> picks a sprite by comparing with \<open>battleState.pokemon1.name\<close>
  for the events \<open>move_use\<close>, \<open>damage\<close> and \<open>faint\<close>, which throws while side 1 is not
  loaded. What it does to the sprites is not part of the state.
\<close>

definition animateEvent :: "battle_event \<Rightarrow> ui_state \<Rightarrow> outcome" where
  "animateEvent event s =
     (if event_type event = ''move_use'' \<or> event_type event = ''damage''
         \<or> event_type event = ''faint''
      then (case pokemon1 s of None \<Rightarrow> (Some propertyOfNull, s) | Some p1 \<Rightarrow> (None, s))
      else (None, s))"

definition turnHeader :: "turn_record \<Rightarrow> element" where
  "turnHeader t =
     \<lparr>tagName = ''div'', className = ''log-entry log-turn'',
      textContent = ''Turn '' @ numberToString (turn t) @ '':''\<rparr>"

definition logEntry :: "battle_event \<Rightarrow> element" where
  "logEntry event =
     \<lparr>tagName = ''div'', className = ''log-entry '' @ getLogClass event,
      textContent = message event\<rparr>"

definition appendLog :: "element \<Rightarrow> ui_state \<Rightarrow> ui_state" where
  "appendLog e s = s\<lparr>battleLog := battleLog s @ [e]\<rparr>"

text \<open>The inner loop \<open>for (const event of turn.events)\<close>; the pauses change nothing.\<close>

fun animateEvents :: "battle_event list \<Rightarrow> ui_state \<Rightarrow> outcome" where
  "animateEvents [] s = (None, s)"
| "animateEvents (event # rest) s =
     andThen (animateEvent event s) (\<lambda>s1.
     animateEvents rest (appendLog (logEntry event) s1))"

text \<open>The outer loop \<open>for (const turn of battleResult.battle_log)\<close>.\<close>

fun animateTurns :: "turn_record list \<Rightarrow> ui_state \<Rightarrow> outcome" where
  "animateTurns [] s = (None, s)"
| "animateTurns (t # rest) s =
     (let s1 = s\<lparr>currentTurn := numberToString (turn t)\<rparr>;
          s2 = appendLog (turnHeader t) s1
      in andThen (animateEvents (events t) s2) (\<lambda>s3.
         andThen (case pokemon_states t of
                    None \<Rightarrow> (None, s3)
                  | Some states \<Rightarrow> updatePokemonStates states s3) (\<lambda>s4.
         animateTurns rest s4)))"

definition animateBattle :: "battle_result \<Rightarrow> ui_state \<Rightarrow> outcome" where
  "animateBattle battleResult s =
     andThen (animateTurns (battle_log battleResult) s) (\<lambda>s1.
     (None, showBattleResults battleResult s1))"

subsection \<open>Starting a battle\<close>

text \<open>The \<open>catch\<close> block of \<open>startBattle\<close>.\<close>

definition catchBattle :: "js_error \<Rightarrow> ui_state \<Rightarrow> ui_state" where
  "catchBattle error s =
     backToSetup
       (showError (''Battle failed: '' @ errorMessage error)
          ((hideLoading s)\<lparr>battleInProgress := False\<rparr>))"

text \<open>
  \<open>startBattle()\<close>, given what the server answers. \<open>getBattleConfig\<close> is called outside
  the \<open>try\<close>, so its error leaves the function. \<open>animateBattle\<close> is called without
  \<open>await\<close>: it is run to its end here, and an error in it is not caught by
  \<open>startBattle\<close>.
\<close>

definition startBattle :: "fetch_outcome \<Rightarrow> ui_state \<Rightarrow> outcome" where
  "startBattle response s =
     (if battleInProgress s then (None, showError ''Battle already in progress'' s)
      else
        (case getBattleConfig s of
           Inl e \<Rightarrow> (Some e, s)
         | Inr config \<Rightarrow>
             (let s1 = (showLoading ''Starting battle...'' s)\<lparr>battleInProgress := True\<rparr>;
                  s2 = s1\<lparr>battleSetup_display := ''none'', battleArena_display := ''block''\<rparr>
              in case initializeBattleArena config s2 of
                   (Some e, s3) \<Rightarrow> (None, catchBattle e s3)
                 | (None, s3) \<Rightarrow>
                     (let s4 = s3\<lparr>fetched := fetched s3
                                   @ [\<lparr>url = ''/api/battle/simulate'', body = config\<rparr>]\<rparr>
                      in case response of
                           Rejected msg \<Rightarrow> (None, catchBattle (Error msg) s4)
                         | Resolved result \<Rightarrow>
                             (let s5 = hideLoading s4
                              in case result of
                                   Succeeded battleResult \<Rightarrow>
                                     (None,
                                      snd (animateBattle battleResult
                                             (s5\<lparr>currentBattle := Some battleResult\<rparr>)))
                                 | Failed err \<Rightarrow>
                                     (None,
                                      catchBattle
                                        (Error (case err of
                                                  None \<Rightarrow> ''Battle simulation failed''
                                                | Some m \<Rightarrow>
                                                    if m = [] then ''Battle simulation failed''
                                                    else m))
                                        s5))))))"


subsection \<open>States used to evaluate the functions\<close>

text \<open>
  The page before a species is loaded: \<open>battleState\<close> as its initialiser has it, the
  document as \<open>resetBattle\<close> leaves it, with nothing shown in the arena.
\<close>

definition pageAtLoad :: ui_state where
  "pageAtLoad =
     \<lparr>pokemon1 = None,
      pokemon2 = None,
      battleInProgress = False,
      currentBattle = None,
      levelValue = (\<lambda>pokemonNumber. ''50''),
      moveValue = (\<lambda>pokemonNumber i. []),
      validationResults_display = ''none'',
      validationResults_className = [],
      validationList = [],
      battleBtn_disabled = True,
      battleSetup_display = ''block'',
      battleArena_display = ''none'',
      resultsScreen_display = ''none'',
      battleSprite_src = (\<lambda>pokemonNumber. None),
      battleName = (\<lambda>pokemonNumber. []),
      healthBar_width = (\<lambda>pokemonNumber. Finite 100),
      healthBar_className = (\<lambda>pokemonNumber. ''health-fill''),
      healthText = (\<lambda>pokemonNumber. []),
      statusEffects = (\<lambda>pokemonNumber. []),
      battleLog = [],
      currentTurn = ''1'',
      winnerAnnouncement = [],
      summaryStats = [],
      loadingText = [],
      loadingOverlay_display = ''none'',
      errorText = [],
      errorMessage_display = ''none'',
      fetched = []\<rparr>"

text \<open>The page with both sides loaded and all eight moves chosen.\<close>

definition pageLoaded :: ui_state where
  "pageLoaded =
     pageAtLoad
       \<lparr>pokemon1 := Some \<lparr>name = ''pikachu'', front_default = Some ''/sprites/25.png''\<rparr>,
        pokemon2 := Some \<lparr>name = ''charmander'', front_default = None\<rparr>,
        levelValue := (\<lambda>pokemonNumber. if pokemonNumber = 1 then ''50'' else ''42''),
        moveValue := (\<lambda>pokemonNumber i. if pokemonNumber = 1 then ''spark'' else ''ember'')\<rparr>"

text \<open>A battle of one turn with two events and a snapshot of both sides.\<close>

definition sampleTurn :: turn_record where
  "sampleTurn =
     \<lparr>turn = 1,
      events =
        [\<lparr>event_type = ''move_use'', message = ''pikachu used spark!'',
          pokemon = Some ''pikachu'', defender = None\<rparr>,
         \<lparr>event_type = ''damage'', message = ''charmander took 31 damage!'',
          pokemon = None, defender = Some ''charmander''\<rparr>],
      pokemon_states =
        Some [(''pikachu'',
               \<lparr>state_hp = \<lparr>current = 95, max_hp = 95\<rparr>, status = None\<rparr>),
              (''charmander'',
               \<lparr>state_hp = \<lparr>current = 0, max_hp = 31\<rparr>,
                status = Some \<lparr>condition = ''paralysis''\<rparr>\<rparr>)]\<rparr>"

definition sampleResult :: battle_result where
  "sampleResult =
     \<lparr>winner = ''pikachu'',
      total_turns = 1,
      battle_log = [sampleTurn],
      participants_pokemon1 =
        \<lparr>participant_name = ''pikachu'', final_hp = \<lparr>current = 95, max_hp = 95\<rparr>\<rparr>,
      participants_pokemon2 =
        \<lparr>participant_name = ''charmander'', final_hp = \<lparr>current = 0, max_hp = 31\<rparr>\<rparr>\<rparr>"



section \<open>Properties\<close>

subsection \<open>Stat formulas in integer arithmetic\<close>

lemma calcHP_div: "calcHP b l = (2 * b * l) div 100 + l + 10"
proof -
  have "((2 * real_of_int b * real_of_int l) / 100) + real_of_int l + 10
        = real_of_int (2 * b * l) / real_of_int 100 + real_of_int (l + 10)"
    by simp
  then show ?thesis
    unfolding calcHP_def by (simp only: floor_add_int [symmetric] floor_divide_of_int_eq)
qed

lemma calcStat_div: "calcStat b l = (2 * b * l) div 100 + 5"
proof -
  have "((2 * real_of_int b * real_of_int l) / 100) + 5
        = real_of_int (2 * b * l) / real_of_int 100 + real_of_int 5"
    by simp
  then show ?thesis
    unfolding calcStat_def by (simp only: floor_add_int [symmetric] floor_divide_of_int_eq)
qed

lemma calcStat_mono:
  assumes "0 \<le> b" and "l1 \<le> l2"
  shows "calcStat b l1 \<le> calcStat b l2"
proof -
  have "2 * b * l1 \<le> 2 * b * l2"
    using assms by (simp add: mult_left_mono)
  then have "(2 * b * l1) div 100 \<le> (2 * b * l2) div 100"
    by (rule zdiv_mono1) simp
  then show ?thesis
    by (simp add: calcStat_div)
qed

lemma calcHP_mono:
  assumes "0 \<le> b" and "l1 \<le> l2"
  shows "calcHP b l1 \<le> calcHP b l2"
proof -
  have "2 * b * l1 \<le> 2 * b * l2"
    using assms by (simp add: mult_left_mono)
  then have "(2 * b * l1) div 100 \<le> (2 * b * l2) div 100"
    by (rule zdiv_mono1) simp
  with assms(2) show ?thesis
    by (simp add: calcHP_div)
qed

subsection \<open>Sequencing\<close>

lemma andThen_None [simp]: "andThen (None, s) f = f s"
  by (simp add: andThen_def)

lemma andThen_Some [simp]: "andThen (Some e, s) f = (Some e, s)"
  by (simp add: andThen_def)

lemma andThen_ok: "fst r = None \<Longrightarrow> andThen r f = f (snd r)"
  by (cases r) (simp add: andThen_def)

subsection \<open>Decimal numerals and \<open>parseInt\<close>\<close>

lemma digit_char_code: "of_char (digit_char n) = (48 + n mod 10 :: nat)"
proof -
  have "n mod 10 < 10" by simp
  then have "n mod 10 = 0 \<or> n mod 10 = 1 \<or> n mod 10 = 2 \<or> n mod 10 = 3 \<or> n mod 10 = 4
      \<or> n mod 10 = 5 \<or> n mod 10 = 6 \<or> n mod 10 = 7 \<or> n mod 10 = 8 \<or> n mod 10 = 9"
    by arith
  then show ?thesis
    unfolding digit_char_def by (elim disjE) simp_all
qed

lemma digitValue_digit_char: "digitValue (digit_char n) = n mod 10"
  by (simp add: digitValue_def digit_char_code Let_def)

lemma decimalDigits_digits:
  "decimalDigits n \<noteq> [] \<and> (\<forall>c \<in> set (decimalDigits n). \<exists>k. c = digit_char k)"
proof (induction n rule: decimalDigits.induct)
  case (1 n)
  show ?case
  proof (cases "n < 10")
    case True
    then show ?thesis by (subst (1 2) decimalDigits.simps) auto
  next
    case False
    with "1.IH" show ?thesis by (subst (1 2) decimalDigits.simps) auto
  qed
qed

lemma decimalDigits_value:
  "foldl (\<lambda>acc c. acc * 10 + digitValue c) 0 (decimalDigits n) = n"
proof (induction n rule: decimalDigits.induct)
  case (1 n)
  show ?case
  proof (cases "n < 10")
    case True
    then show ?thesis
      by (subst decimalDigits.simps) (simp add: digitValue_digit_char)
  next
    case False
    with "1.IH" show ?thesis
      by (subst decimalDigits.simps) (simp add: digitValue_digit_char)
  qed
qed

lemma parseInt_digits:
  assumes "ds \<noteq> []" and "\<forall>c \<in> set ds. \<exists>k. c = digit_char k"
  shows "parseInt ds = Some (int (foldl (\<lambda>acc c. acc * 10 + digitValue c) 0 ds))"
    and "parseInt (CHR ''-'' # ds)
           = Some (- int (foldl (\<lambda>acc c. acc * 10 + digitValue c) 0 ds))"
proof -
  have dig: "digitValue c < 10 \<and> \<not> isWhiteSpace c
               \<and> c \<noteq> CHR ''-'' \<and> c \<noteq> CHR ''+'' \<and> c \<noteq> CHR ''x'' \<and> c \<noteq> CHR ''X''"
    if "c \<in> set ds" for c
  proof -
    from that assms(2) obtain k where c: "c = digit_char k" by blast
    have "of_char c = (48 + k mod 10 :: nat)" by (simp add: c digit_char_code)
    moreover have "k mod 10 < 10" by simp
    ultimately show ?thesis
      by (auto simp: c digitValue_digit_char isWhiteSpace_def)
  qed
  obtain d rest where ds: "ds = d # rest" using assms(1) by (cases ds) auto
  have d: "digitValue d < 10 \<and> \<not> isWhiteSpace d
               \<and> d \<noteq> CHR ''-'' \<and> d \<noteq> CHR ''+'' \<and> d \<noteq> CHR ''x'' \<and> d \<noteq> CHR ''X''"
    using dig [of d] by (simp add: ds)
  have nohex: "take 2 ds \<noteq> ''0x'' \<and> take 2 ds \<noteq> ''0X''"
  proof (cases rest)
    case Nil
    then show ?thesis by (simp add: ds)
  next
    case (Cons e rest')
    with dig [of e] show ?thesis by (auto simp: ds)
  qed
  have all: "takeWhile (\<lambda>c. digitValue c < 10) ds = ds"
    using dig by simp
  have drop: "dropWhile isWhiteSpace ds = ds"
    using d by (simp add: ds)
  have hd: "hd ds \<noteq> CHR ''-''" "hd ds \<noteq> CHR ''+''"
    using d by (simp_all add: ds)
  show "parseInt ds = Some (int (foldl (\<lambda>acc c. acc * 10 + digitValue c) 0 ds))"
    unfolding parseInt_def drop Let_def using nohex assms(1) hd
    by (simp add: all)
  have drop': "dropWhile isWhiteSpace (CHR ''-'' # ds) = CHR ''-'' # ds"
    by (simp add: isWhiteSpace_def)
  show "parseInt (CHR ''-'' # ds)
           = Some (- int (foldl (\<lambda>acc c. acc * 10 + digitValue c) 0 ds))"
    unfolding parseInt_def drop' Let_def using nohex assms(1)
    by (simp add: all)
qed

lemma parseInt_numberToString: "parseInt (numberToString i) = Some i"
proof (cases "i < 0")
  case True
  then show ?thesis
    using parseInt_digits(2) [of "decimalDigits (nat (- i))"] decimalDigits_digits [of "nat (- i)"]
    by (simp add: numberToString_def decimalDigits_value)
next
  case False
  then show ?thesis
    using parseInt_digits(1) [of "decimalDigits (nat i)"] decimalDigits_digits [of "nat i"]
    by (simp add: numberToString_def decimalDigits_value)
qed

subsection \<open>The loops\<close>


lemma getMovesLoop_eq:
  "i \<le> 5 \<Longrightarrow> getMovesLoop s p i acc = acc @ map (moveValue s p) [i..<5]"
proof (induction s p i acc rule: getMovesLoop.induct)
  case (1 s p i acc)
  show ?case
  proof (cases "i \<le> 4")
    case True
    then have "[i..<5] = i # [i + 1..<5]"
      by (simp add: upt_conv_Cons)
    with True "1.IH" show ?thesis
      by (subst getMovesLoop.simps) simp
  next
    case False
    with "1.prems" have "i = 5" by simp
    then show ?thesis
      by (subst getMovesLoop.simps) simp
  qed
qed

lemma getMoves_eq:
  "getMoves s p = [moveValue s p 1, moveValue s p 2, moveValue s p 3, moveValue s p 4]"
proof -
  have "[1..<5] = [1, 2, 3, 4::nat]"
    by (simp add: upt_conv_Cons)
  then show ?thesis
    by (simp add: getMoves_def getMovesLoop_eq)
qed

lemma updateHealthBar_side:
  "sideElement n \<Longrightarrow>
     fst (updateHealthBar n pct s) = None
     \<and> battleLog (snd (updateHealthBar n pct s)) = battleLog s
     \<and> pokemon1 (snd (updateHealthBar n pct s)) = pokemon1 s"
  by (simp add: updateHealthBar_def)

lemma updateStatusEffects_side:
  "sideElement n \<Longrightarrow>
     fst (updateStatusEffects n st s) = None
     \<and> battleLog (snd (updateStatusEffects n st s)) = battleLog s
     \<and> pokemon1 (snd (updateStatusEffects n st s)) = pokemon1 s"
  by (simp add: updateStatusEffects_def Let_def split: option.split)

lemma updatePokemonStatesFrom_ok:
  "index + length states \<le> 2 \<Longrightarrow>
     fst (updatePokemonStatesFrom index states s) = None
     \<and> battleLog (snd (updatePokemonStatesFrom index states s)) = battleLog s
     \<and> pokemon1 (snd (updatePokemonStatesFrom index states s)) = pokemon1 s"
proof (induction states arbitrary: index s)
  case Nil
  show ?case by simp
next
  case (Cons entry rest)
  obtain pokemonName state where entry: "entry = (pokemonName, state)"
    by (cases entry)
  from Cons.prems have side: "sideElement (index + 1)"
    by (auto simp: sideElement_def)
  from Cons.prems have rest: "(index + 1) + length rest \<le> 2"
    by simp
  define s1 where "s1 = snd (updateHealthBar (index + 1) (healthPercentage (state_hp state)) s)"
  define s2 where "s2 = s1\<lparr>healthText := (healthText s1)
                         (index + 1 :=
                            numberToString (current (state_hp state)) @ ''/''
                            @ numberToString (max_hp (state_hp state)) @ '' HP'')\<rparr>"
  define s3 where "s3 = snd (updateStatusEffects (index + 1) (status state) s2)"
  have step: "updatePokemonStatesFrom index (entry # rest) s
                = updatePokemonStatesFrom (index + 1) rest s3"
    using side updateHealthBar_side [OF side] updateStatusEffects_side [OF side]
    by (simp add: entry andThen_ok s1_def s2_def s3_def)
  have "battleLog s3 = battleLog s" and "pokemon1 s3 = pokemon1 s"
    using updateHealthBar_side [OF side] updateStatusEffects_side [OF side]
    by (simp_all add: s1_def s2_def s3_def)
  with Cons.IH [OF rest, of s3] step show ?case
    by simp
qed

lemma animateEvents_ok:
  "pokemon1 s \<noteq> None \<Longrightarrow>
     animateEvents es s = (None, s\<lparr>battleLog := battleLog s @ map logEntry es\<rparr>)"
proof (induction es arbitrary: s)
  case Nil
  show ?case by simp
next
  case (Cons e es)
  from Cons.prems have ev: "animateEvent e s = (None, s)"
    by (auto simp: animateEvent_def)
  have "pokemon1 (appendLog (logEntry e) s) \<noteq> None"
    using Cons.prems by (simp add: appendLog_def)
  from Cons.IH [OF this] ev show ?case
    by (simp add: appendLog_def)
qed

lemma animateTurns_ok:
  assumes "pokemon1 s \<noteq> None"
    and "\<forall>t \<in> set ts. \<forall>states. pokemon_states t = Some states \<longrightarrow> length states \<le> 2"
  shows "fst (animateTurns ts s) = None
     \<and> battleLog (snd (animateTurns ts s))
         = battleLog s @ concat (map (\<lambda>t. turnHeader t # map logEntry (events t)) ts)
     \<and> pokemon1 (snd (animateTurns ts s)) = pokemon1 s"
  using assms
proof (induction ts arbitrary: s)
  case Nil
  show ?case by simp
next
  case (Cons t ts)
  define s2 where "s2 = appendLog (turnHeader t) (s\<lparr>currentTurn := numberToString (turn t)\<rparr>)"
  define s3 where "s3 = s2\<lparr>battleLog := battleLog s2 @ map logEntry (events t)\<rparr>"
  define r where "r = (case pokemon_states t of None \<Rightarrow> (None, s3)
                       | Some states \<Rightarrow> updatePokemonStates states s3)"
  have p2: "pokemon1 s2 \<noteq> None"
    using Cons.prems(1) by (simp add: s2_def appendLog_def)
  have ev: "animateEvents (events t) s2 = (None, s3)"
    using animateEvents_ok [OF p2] by (simp add: s3_def)
  have r: "fst r = None \<and> battleLog (snd r) = battleLog s3 \<and> pokemon1 (snd r) = pokemon1 s3"
  proof (cases "pokemon_states t")
    case None
    then show ?thesis by (simp add: r_def)
  next
    case (Some states)
    with Cons.prems(2) have "0 + length states \<le> 2" by simp
    from updatePokemonStatesFrom_ok [OF this, of s3] Some show ?thesis
      by (simp add: r_def updatePokemonStates_def)
  qed
  have step: "animateTurns (t # ts) s = animateTurns ts (snd r)"
    using ev r by (simp add: Let_def s2_def [symmetric] r_def [symmetric] andThen_ok)
  have p: "pokemon1 (snd r) \<noteq> None"
    using r p2 by (simp add: s3_def)
  have rest: "\<forall>t \<in> set ts. \<forall>states. pokemon_states t = Some states \<longrightarrow> length states \<le> 2"
    using Cons.prems(2) by simp
  have "battleLog (snd r) = battleLog s @ turnHeader t # map logEntry (events t)"
    using r by (simp add: s3_def s2_def appendLog_def)
  moreover have "pokemon1 (snd r) = pokemon1 s"
    using r by (simp add: s3_def s2_def appendLog_def)
  ultimately show ?case
    using Cons.IH [OF p rest] step by simp
qed


subsection \<open>Texts\<close>

lemma includesStr_mid: "includesStr (xs @ pat @ ys) pat"
proof (induction xs)
  case Nil
  show ?case
  proof (cases "pat @ ys")
    case Nil
    then show ?thesis by simp
  next
    case (Cons a rest)
    then have "includesStr (pat @ ys) pat
                 = (take (length pat) (pat @ ys) = pat \<or> includesStr rest pat)"
      by simp
    then show ?thesis by simp
  qed
next
  case (Cons x xs)
  then show ?case by simp
qed

subsection \<open>The caller of \<open>animateBattle\<close>\<close>

text \<open>
  \<open>startBattle\<close> is the only caller of \<open>animateBattle\<close>, and calls it on a page whose
  sides are loaded and whose log was just emptied.
\<close>

lemma initializeBattleArena_loaded:
  assumes "pokemon1 s = Some p1" and "pokemon2 s = Some p2"
  shows "fst (initializeBattleArena config s) = None
     \<and> battleLog (snd (initializeBattleArena config s)) = []
     \<and> pokemon1 (snd (initializeBattleArena config s)) = Some p1
     \<and> fetched (snd (initializeBattleArena config s)) = fetched s"
  using assms
  by (simp add: initializeBattleArena_def updateHealthBar_def sideElement_def Let_def)

lemma startBattle_log:
  assumes "\<not> battleInProgress s" and "pokemon1 s = Some p1" and "pokemon2 s = Some p2"
    and "\<forall>t \<in> set (battle_log battleResult). \<forall>states.
           pokemon_states t = Some states \<longrightarrow> length states \<le> 2"
  shows "battleLog (snd (startBattle (Resolved (Succeeded battleResult)) s))
           = concat (map (\<lambda>t. turnHeader t # map logEntry (events t)) (battle_log battleResult))"
proof -
  obtain config where config: "getBattleConfig s = Inr config"
    using assms(2,3) by (simp add: getBattleConfig_def)
  define s2 where "s2 = (showLoading ''Starting battle...'' s)
      \<lparr>battleInProgress := True, battleSetup_display := ''none'',
       battleArena_display := ''block''\<rparr>"
  define s3 where "s3 = snd (initializeBattleArena config s2)"
  define s5 where "s5 = (hideLoading
      (s3\<lparr>fetched := fetched s3 @ [\<lparr>url = ''/api/battle/simulate'', body = config\<rparr>]\<rparr>))
      \<lparr>currentBattle := Some battleResult\<rparr>"
  have "pokemon1 s2 = Some p1" and "pokemon2 s2 = Some p2"
    using assms(2,3) by (simp_all add: s2_def showLoading_def)
  from initializeBattleArena_loaded [OF this, of config]
  have init: "initializeBattleArena config s2 = (None, s3)"
    and log3: "battleLog s3 = []" and p3: "pokemon1 s3 = Some p1"
    by (simp_all add: s3_def prod_eq_iff)
  have start: "startBattle (Resolved (Succeeded battleResult)) s
      = (None, snd (animateBattle battleResult s5))"
    using assms(1) init
    by (simp add: startBattle_def config Let_def s2_def s5_def)
  have "pokemon1 s5 \<noteq> None" and "battleLog s5 = []"
    using p3 log3 by (simp_all add: s5_def hideLoading_def)
  with animateTurns_ok [of s5 "battle_log battleResult"] assms(4) show ?thesis
    by (simp add: start animateBattle_def andThen_ok showBattleResults_def Let_def)
qed

subsection \<open>Claims\<close>

text \<open>
  C1. For every base-stats record and every level, \<open>calculateStatsAtLevel\<close> returns
  hp = floor(2*baseHp*level/100 + level + 10) and, for each of attack, defense,
  special_attack, special_defense and speed, floor(2*base*level/100 + 5). The floor is
  taken of the exact quotient; the second half of the statement gives the same values in
  integer division.
\<close>

theorem calculateStatsAtLevel_formula:
  "hp (calculateStatsAtLevel b l)
     = \<lfloor>2 * real_of_int (hp b) * real_of_int l / 100 + real_of_int l + 10\<rfloor>
   \<and> attack (calculateStatsAtLevel b l)
     = \<lfloor>2 * real_of_int (attack b) * real_of_int l / 100 + 5\<rfloor>
   \<and> defense (calculateStatsAtLevel b l)
     = \<lfloor>2 * real_of_int (defense b) * real_of_int l / 100 + 5\<rfloor>
   \<and> special_attack (calculateStatsAtLevel b l)
     = \<lfloor>2 * real_of_int (special_attack b) * real_of_int l / 100 + 5\<rfloor>
   \<and> special_defense (calculateStatsAtLevel b l)
     = \<lfloor>2 * real_of_int (special_defense b) * real_of_int l / 100 + 5\<rfloor>
   \<and> speed (calculateStatsAtLevel b l)
     = \<lfloor>2 * real_of_int (speed b) * real_of_int l / 100 + 5\<rfloor>
   \<and> calculateStatsAtLevel b l
     = \<lparr>hp = 2 * hp b * l div 100 + l + 10,
        attack = 2 * attack b * l div 100 + 5,
        defense = 2 * defense b * l div 100 + 5,
        special_attack = 2 * special_attack b * l div 100 + 5,
        special_defense = 2 * special_defense b * l div 100 + 5,
        speed = 2 * speed b * l div 100 + 5\<rparr>"
proof -
  have "calculateStatsAtLevel b l
     = \<lparr>hp = 2 * hp b * l div 100 + l + 10,
        attack = 2 * attack b * l div 100 + 5,
        defense = 2 * defense b * l div 100 + 5,
        special_attack = 2 * special_attack b * l div 100 + 5,
        special_defense = 2 * special_defense b * l div 100 + 5,
        speed = 2 * speed b * l div 100 + 5\<rparr>"
    by (simp add: calculateStatsAtLevel_def calcHP_div calcStat_div)
  moreover have "hp (calculateStatsAtLevel b l)
     = \<lfloor>2 * real_of_int (hp b) * real_of_int l / 100 + real_of_int l + 10\<rfloor>"
    by (simp add: calculateStatsAtLevel_def calcHP_def)
  moreover have "attack (calculateStatsAtLevel b l)
     = \<lfloor>2 * real_of_int (attack b) * real_of_int l / 100 + 5\<rfloor>"
    by (simp add: calculateStatsAtLevel_def calcStat_def)
  moreover have "defense (calculateStatsAtLevel b l)
     = \<lfloor>2 * real_of_int (defense b) * real_of_int l / 100 + 5\<rfloor>"
    by (simp add: calculateStatsAtLevel_def calcStat_def)
  moreover have "special_attack (calculateStatsAtLevel b l)
     = \<lfloor>2 * real_of_int (special_attack b) * real_of_int l / 100 + 5\<rfloor>"
    by (simp add: calculateStatsAtLevel_def calcStat_def)
  moreover have "special_defense (calculateStatsAtLevel b l)
     = \<lfloor>2 * real_of_int (special_defense b) * real_of_int l / 100 + 5\<rfloor>"
    by (simp add: calculateStatsAtLevel_def calcStat_def)
  moreover have "speed (calculateStatsAtLevel b l)
     = \<lfloor>2 * real_of_int (speed b) * real_of_int l / 100 + 5\<rfloor>"
    by (simp add: calculateStatsAtLevel_def calcStat_def)
  ultimately show ?thesis by blast
qed

text \<open>
  C3. For fixed non-negative base stats and two levels \<open>l1 \<le> l2\<close>, every stat returned
  by \<open>calculateStatsAtLevel\<close> at \<open>l1\<close> is at most the corresponding stat at \<open>l2\<close>. The
  levels are taken between 1 and 100, though the proof does not need these bounds.
\<close>

theorem calculateStatsAtLevel_mono:
  assumes "0 \<le> hp b" and "0 \<le> attack b" and "0 \<le> defense b"
    and "0 \<le> special_attack b" and "0 \<le> special_defense b" and "0 \<le> speed b"
    and "1 \<le> l1" and "l1 \<le> l2" and "l2 \<le> 100"
  shows "hp (calculateStatsAtLevel b l1) \<le> hp (calculateStatsAtLevel b l2)
       \<and> attack (calculateStatsAtLevel b l1) \<le> attack (calculateStatsAtLevel b l2)
       \<and> defense (calculateStatsAtLevel b l1) \<le> defense (calculateStatsAtLevel b l2)
       \<and> special_attack (calculateStatsAtLevel b l1)
           \<le> special_attack (calculateStatsAtLevel b l2)
       \<and> special_defense (calculateStatsAtLevel b l1)
           \<le> special_defense (calculateStatsAtLevel b l2)
       \<and> speed (calculateStatsAtLevel b l1) \<le> speed (calculateStatsAtLevel b l2)"
  using assms by (simp add: calculateStatsAtLevel_def calcHP_mono calcStat_mono)

theorem calculateStatsAtLevel_mono_witness:
  "hp (calculateStatsAtLevel
         \<lparr>hp = 35, attack = 55, defense = 40, special_attack = 50,
          special_defense = 50, speed = 90\<rparr> 5) = 18
   \<and> hp (calculateStatsAtLevel
         \<lparr>hp = 35, attack = 55, defense = 40, special_attack = 50,
          special_defense = 50, speed = 90\<rparr> 50) = 95
   \<and> hp (calculateStatsAtLevel
         \<lparr>hp = 35, attack = 55, defense = 40, special_attack = 50,
          special_defense = 50, speed = 90\<rparr> 5)
       \<le> hp (calculateStatsAtLevel
         \<lparr>hp = 35, attack = 55, defense = 40, special_attack = 50,
          special_defense = 50, speed = 90\<rparr> 50)
   \<and> speed (calculateStatsAtLevel
         \<lparr>hp = 35, attack = 55, defense = 40, special_attack = 50,
          special_defense = 50, speed = 90\<rparr> 5)
       \<le> speed (calculateStatsAtLevel
         \<lparr>hp = 35, attack = 55, defense = 40, special_attack = 50,
          special_defense = 50, speed = 90\<rparr> 50)"
  using calculateStatsAtLevel_mono
    [of "\<lparr>hp = 35, attack = 55, defense = 40, special_attack = 50,
          special_defense = 50, speed = 90\<rparr>" 5 50]
  by (simp add: calculateStatsAtLevel_def calcHP_div calcStat_div)

text \<open>
  C4, as stated: for every state of the page, \<open>getBattleConfig\<close> returns a
  configuration. Before a species is loaded \<open>battleState.pokemon1\<close> is \<open>null\<close> and
  the function throws instead.
\<close>

theorem getBattleConfig_counterexample:
  "getBattleConfig pageAtLoad = Inl propertyOfNull"
  by (simp add: getBattleConfig_def pageAtLoad_def)

text \<open>
  C4, amended: for every state of the page in which both sides are loaded,
  \<open>getBattleConfig\<close> returns a configuration in which each of pokemon1 and pokemon2
  carries exactly 4 move identifiers, the values of that side's four move selects in
  order, and a level equal to \<open>parseInt\<close> of the value of that side's level slider,
  which is n when the value is the decimal numeral of the integer n.
\<close>

theorem getBattleConfig_loaded:
  assumes "pokemon1 s = Some p1" and "pokemon2 s = Some p2"
  shows "\<exists>config. getBattleConfig s = Inr config
     \<and> length (moves (config_pokemon1 config)) = 4
     \<and> length (moves (config_pokemon2 config)) = 4
     \<and> moves (config_pokemon1 config)
         = [moveValue s 1 1, moveValue s 1 2, moveValue s 1 3, moveValue s 1 4]
     \<and> moves (config_pokemon2 config)
         = [moveValue s 2 1, moveValue s 2 2, moveValue s 2 3, moveValue s 2 4]
     \<and> level (config_pokemon1 config) = parseInt (levelValue s 1)
     \<and> level (config_pokemon2 config) = parseInt (levelValue s 2)
     \<and> (\<forall>n. levelValue s 1 = numberToString n \<longrightarrow> level (config_pokemon1 config) = Some n)
     \<and> (\<forall>n. levelValue s 2 = numberToString n \<longrightarrow> level (config_pokemon2 config) = Some n)"
  using assms by (simp add: getBattleConfig_def getMoves_eq parseInt_numberToString)

theorem getBattleConfig_loaded_witness:
  "getBattleConfig pageLoaded
     = Inr \<lparr>config_pokemon1 =
              \<lparr>config_name = ''pikachu'', level = Some 50,
               moves = [''spark'', ''spark'', ''spark'', ''spark'']\<rparr>,
            config_pokemon2 =
              \<lparr>config_name = ''charmander'', level = Some 42,
               moves = [''ember'', ''ember'', ''ember'', ''ember'']\<rparr>\<rparr>"
proof -
  have l1: "levelValue pageLoaded 1 = numberToString 50"
    by (simp add: pageLoaded_def numberToString_def decimalDigits.simps digit_char_def)
  have l2: "levelValue pageLoaded 2 = numberToString 42"
    by (simp add: pageLoaded_def numberToString_def decimalDigits.simps digit_char_def)
  have m: "moveValue pageLoaded 1 i = ''spark''" "moveValue pageLoaded 2 i = ''ember''" for i
    by (simp_all add: pageLoaded_def)
  have n: "name (the (pokemon1 pageLoaded)) = ''pikachu''"
    "name (the (pokemon2 pageLoaded)) = ''charmander''"
    by (simp_all add: pageLoaded_def)
  from getBattleConfig_loaded [of pageLoaded "the (pokemon1 pageLoaded)" "the (pokemon2 pageLoaded)"]
  obtain config where c: "getBattleConfig pageLoaded = Inr config"
     "moves (config_pokemon1 config) = [''spark'', ''spark'', ''spark'', ''spark'']"
     "moves (config_pokemon2 config) = [''ember'', ''ember'', ''ember'', ''ember'']"
     "level (config_pokemon1 config) = Some 50"
     "level (config_pokemon2 config) = Some 42"
    using l1 l2 by (auto simp: m pageLoaded_def pageAtLoad_def)
  moreover have "config_name (config_pokemon1 config) = ''pikachu''"
    "config_name (config_pokemon2 config) = ''charmander''"
    using c(1) by (auto simp: getBattleConfig_def pageLoaded_def pageAtLoad_def)
  ultimately show ?thesis
    by (cases config, cases "config_pokemon1 config", cases "config_pokemon2 config") auto
qed




text \<open>
  C6. \<open>animateBattle\<close> consumes the battle log in order: when it is started on a page
  whose side 1 is loaded, with a result whose turn snapshots have at most the two
  combatants, it runs to its end without an error, and the entries it appends to the log
  are, for each turn record in the order of \<open>battle_log\<close>, one turn header followed by
  one entry for each event of that turn in the order of \<open>events\<close>: nothing is skipped,
  repeated or moved.
\<close>

theorem animateBattle_log:
  assumes "pokemon1 s \<noteq> None"
    and "\<forall>t \<in> set (battle_log battleResult). \<forall>states.
           pokemon_states t = Some states \<longrightarrow> length states \<le> 2"
  shows "fst (animateBattle battleResult s) = None
     \<and> battleLog (snd (animateBattle battleResult s))
         = battleLog s
           @ concat (map (\<lambda>t. turnHeader t # map logEntry (events t)) (battle_log battleResult))"
  using animateTurns_ok [OF assms]
  by (simp add: animateBattle_def andThen_ok showBattleResults_def Let_def)

theorem animateBattle_log_witness:
  "fst (animateBattle sampleResult pageLoaded) = None
   \<and> battleLog (snd (animateBattle sampleResult pageLoaded))
     = [\<lparr>tagName = ''div'', className = ''log-entry log-turn'', textContent = ''Turn 1:''\<rparr>,
        \<lparr>tagName = ''div'', className = ''log-entry log-move'',
         textContent = ''pikachu used spark!''\<rparr>,
        \<lparr>tagName = ''div'', className = ''log-entry log-damage'',
         textContent = ''charmander took 31 damage!''\<rparr>]"
proof -
  have one: "numberToString 1 = ''1''"
    by (simp add: numberToString_def decimalDigits.simps digit_char_def)
  have "pokemon1 pageLoaded \<noteq> None"
    by (simp add: pageLoaded_def)
  moreover have "\<forall>t \<in> set (battle_log sampleResult). \<forall>states.
           pokemon_states t = Some states \<longrightarrow> length states \<le> 2"
    by (auto simp: sampleResult_def sampleTurn_def)
  moreover have "battleLog pageLoaded = []"
    by (simp add: pageLoaded_def pageAtLoad_def)
  ultimately show ?thesis
    using animateBattle_log [of pageLoaded sampleResult]
    by (simp add: sampleResult_def sampleTurn_def turnHeader_def logEntry_def getLogClass_def one)
qed

text \<open>
  C7. The map \<open>typeColors\<close> defines exactly 18 keys: normal, fire, water, electric, grass,
  ice, fighting, poison, ground, flying, psychic, bug, rock, ghost, dragon, dark, steel
  and fairy, each once.
\<close>

theorem typeColors_keys:
  "map fst typeColors =
     [''normal'', ''fire'', ''water'', ''electric'', ''grass'', ''ice'', ''fighting'',
      ''poison'', ''ground'', ''flying'', ''psychic'', ''bug'', ''rock'', ''ghost'',
      ''dragon'', ''dark'', ''steel'', ''fairy'']
   \<and> distinct (map fst typeColors)
   \<and> length typeColors = 18
   \<and> card (dom (map_of typeColors)) = 18"
proof -
  have keys: "map fst typeColors =
     [''normal'', ''fire'', ''water'', ''electric'', ''grass'', ''ice'', ''fighting'',
      ''poison'', ''ground'', ''flying'', ''psychic'', ''bug'', ''rock'', ''ghost'',
      ''dragon'', ''dark'', ''steel'', ''fairy'']"
    by (simp add: typeColors_def)
  have dist: "distinct (map fst typeColors)"
    unfolding keys by simp
  have len: "length typeColors = 18"
    by (simp add: typeColors_def)
  have "card (dom (map_of typeColors)) = card (set (map fst typeColors))"
    by (simp add: dom_map_of_conv_image_fst)
  also have "\<dots> = length (map fst typeColors)"
    using dist by (rule distinct_card)
  finally have "card (dom (map_of typeColors)) = 18"
    using len by simp
  with keys dist len show ?thesis by blast
qed

text \<open>
  C8. For every battle result, \<open>showBattleResults\<close> announces the named side as the
  winner exactly when \<open>battleResult.winner\<close> is not \<open>Draw\<close>: the announcement is then the
  winner's name followed by \<open>wins!\<close>, between two ornaments, and it contains
  \<open><winner> wins!\<close> in no other case. It announces a draw, \<open>It's a draw!\<close> between two
  ornaments, exactly when the winner is \<open>Draw\<close>. In both cases the summary is the same
  template, filled with \<open>total_turns\<close>, the winner and each participant's name with its
  final current/max hp.
\<close>

theorem showBattleResults_announcement:
  "(winner battleResult \<noteq> ''Draw'')
     = (winnerAnnouncement (showBattleResults battleResult s)
          = partyPopper @ '' '' @ winner battleResult @ '' wins! '' @ partyPopper)
   \<and> (winner battleResult = ''Draw'')
     = (winnerAnnouncement (showBattleResults battleResult s)
          = handshake @ '' It'' @ [CHR 0x27] @ ''s a draw! '' @ handshake)
   \<and> includesStr (winnerAnnouncement (showBattleResults battleResult s))
        (winner battleResult @ '' wins!'')
     = (winner battleResult \<noteq> ''Draw'')
   \<and> summaryStats (showBattleResults battleResult s)
     = newline @ indent 8 @ ''<p><strong>Duration:</strong> ''
         @ numberToString (total_turns battleResult) @ '' turns</p>''
       @ newline @ indent 8 @ ''<p><strong>Winner:</strong> '' @ winner battleResult @ ''</p>''
       @ newline @ indent 8 @ ''<p><strong>Final HP:</strong></p>''
       @ newline @ indent 8 @ ''<ul>''
       @ newline @ indent 12 @ ''<li>'' @ participant_name (participants_pokemon1 battleResult)
         @ '': '' @ numberToString (current (final_hp (participants_pokemon1 battleResult)))
         @ ''/'' @ numberToString (max_hp (final_hp (participants_pokemon1 battleResult)))
         @ ''</li>''
       @ newline @ indent 12 @ ''<li>'' @ participant_name (participants_pokemon2 battleResult)
         @ '': '' @ numberToString (current (final_hp (participants_pokemon2 battleResult)))
         @ ''/'' @ numberToString (max_hp (final_hp (participants_pokemon2 battleResult)))
         @ ''</li>''
       @ newline @ indent 8 @ ''</ul>''
       @ newline @ indent 4
   \<and> includesStr (summaryStats (showBattleResults battleResult s))
        (numberToString (total_turns battleResult) @ '' turns'')
   \<and> includesStr (summaryStats (showBattleResults battleResult s))
        (participant_name (participants_pokemon1 battleResult) @ '': ''
         @ numberToString (current (final_hp (participants_pokemon1 battleResult))) @ ''/''
         @ numberToString (max_hp (final_hp (participants_pokemon1 battleResult))))
   \<and> includesStr (summaryStats (showBattleResults battleResult s))
        (participant_name (participants_pokemon2 battleResult) @ '': ''
         @ numberToString (current (final_hp (participants_pokemon2 battleResult))) @ ''/''
         @ numberToString (max_hp (final_hp (participants_pokemon2 battleResult))))"
proof -
  let ?s = "showBattleResults battleResult s"
  let ?w = "winner battleResult"
  let ?wins = "partyPopper @ '' '' @ ?w @ '' wins! '' @ partyPopper"
  let ?draw = "handshake @ '' It'' @ [CHR 0x27] @ ''s a draw! '' @ handshake"
  let ?line1 = "participant_name (participants_pokemon1 battleResult) @ '': ''
         @ numberToString (current (final_hp (participants_pokemon1 battleResult))) @ ''/''
         @ numberToString (max_hp (final_hp (participants_pokemon1 battleResult)))"
  let ?line2 = "participant_name (participants_pokemon2 battleResult) @ '': ''
         @ numberToString (current (final_hp (participants_pokemon2 battleResult))) @ ''/''
         @ numberToString (max_hp (final_hp (participants_pokemon2 battleResult)))"
  let ?upto_list = "newline @ indent 8 @ ''<p><strong>Duration:</strong> ''
       @ numberToString (total_turns battleResult) @ '' turns</p>''
     @ newline @ indent 8 @ ''<p><strong>Winner:</strong> '' @ ?w @ ''</p>''
     @ newline @ indent 8 @ ''<p><strong>Final HP:</strong></p>''
     @ newline @ indent 8 @ ''<ul>''"
  have ann: "winnerAnnouncement ?s = (if ?w \<noteq> ''Draw'' then ?wins else ?draw)"
    by (simp add: showBattleResults_def winsText_def drawText_def Let_def)
  have differ: "?wins \<noteq> ?draw"
    by (simp add: partyPopper_def handshake_def)
  have a1: "(?w \<noteq> ''Draw'') = (winnerAnnouncement ?s = ?wins)"
    using differ by (auto simp: ann)
  have a2: "(?w = ''Draw'') = (winnerAnnouncement ?s = ?draw)"
    using differ by (auto simp: ann)
  have named: "includesStr ?wins (?w @ '' wins!'')"
  proof -
    have "?wins = (partyPopper @ '' '') @ (?w @ '' wins!'') @ ('' '' @ partyPopper)"
      by simp
    then show ?thesis
      by (simp only: includesStr_mid)
  qed
  have unnamed: "\<not> includesStr ?draw (''Draw'' @ '' wins!'')"
    by (simp add: handshake_def)
  have a3: "includesStr (winnerAnnouncement ?s) (?w @ '' wins!'') = (?w \<noteq> ''Draw'')"
  proof (cases "?w = ''Draw''")
    case True
    with unnamed show ?thesis by (simp add: ann)
  next
    case False
    with named show ?thesis by (simp add: ann)
  qed
  have sum: "summaryStats ?s
     = newline @ indent 8 @ ''<p><strong>Duration:</strong> ''
         @ numberToString (total_turns battleResult) @ '' turns</p>''
       @ newline @ indent 8 @ ''<p><strong>Winner:</strong> '' @ winner battleResult @ ''</p>''
       @ newline @ indent 8 @ ''<p><strong>Final HP:</strong></p>''
       @ newline @ indent 8 @ ''<ul>''
       @ newline @ indent 12 @ ''<li>'' @ participant_name (participants_pokemon1 battleResult)
         @ '': '' @ numberToString (current (final_hp (participants_pokemon1 battleResult)))
         @ ''/'' @ numberToString (max_hp (final_hp (participants_pokemon1 battleResult)))
         @ ''</li>''
       @ newline @ indent 12 @ ''<li>'' @ participant_name (participants_pokemon2 battleResult)
         @ '': '' @ numberToString (current (final_hp (participants_pokemon2 battleResult)))
         @ ''/'' @ numberToString (max_hp (final_hp (participants_pokemon2 battleResult)))
         @ ''</li>''
       @ newline @ indent 8 @ ''</ul>''
       @ newline @ indent 4"
    by (simp add: showBattleResults_def summaryHtml_def participantLine_def Let_def)
  have "summaryStats ?s
          = (newline @ indent 8 @ ''<p><strong>Duration:</strong> '')
            @ (numberToString (total_turns battleResult) @ '' turns'')
            @ (''</p>''
     @ newline @ indent 8 @ ''<p><strong>Winner:</strong> '' @ ?w @ ''</p>''
     @ newline @ indent 8 @ ''<p><strong>Final HP:</strong></p>''
     @ newline @ indent 8 @ ''<ul>''
     @ newline @ indent 12 @ ''<li>'' @ ?line1 @ ''</li>''
     @ newline @ indent 12 @ ''<li>'' @ ?line2 @ ''</li>''
     @ newline @ indent 8 @ ''</ul>''
     @ newline @ indent 4)"
    by (simp add: sum)
  then have t: "includesStr (summaryStats ?s)
                  (numberToString (total_turns battleResult) @ '' turns'')"
    by (simp only: includesStr_mid)
  have "summaryStats ?s
          = (?upto_list @ newline @ indent 12 @ ''<li>'') @ ?line1
            @ (''</li>'' @ newline @ indent 12 @ ''<li>'' @ ?line2 @ ''</li>''
               @ newline @ indent 8 @ ''</ul>'' @ newline @ indent 4)"
    by (simp add: sum)
  then have p1: "includesStr (summaryStats ?s) ?line1"
    by (simp only: includesStr_mid)
  have "summaryStats ?s
          = (?upto_list @ newline @ indent 12 @ ''<li>'' @ ?line1 @ ''</li>''
             @ newline @ indent 12 @ ''<li>'') @ ?line2
            @ (''</li>'' @ newline @ indent 8 @ ''</ul>'' @ newline @ indent 4)"
    by (simp add: sum)
  then have p2: "includesStr (summaryStats ?s) ?line2"
    by (simp only: includesStr_mid)
  show ?thesis
    by (intro conjI) (fact a1 a2 a3 sum t p1 p2)+
qed

theorem showBattleResults_announcement_witness:
  "winnerAnnouncement (showBattleResults sampleResult pageLoaded)
     = [CHR 0xC3, CHR 0xB0, CHR 0xC5, CHR 0xB8, CHR 0xC5, CHR 0xBD, CHR 0xE2, CHR 0x80, CHR 0xB0]
       @ '' pikachu wins! ''
       @ [CHR 0xC3, CHR 0xB0, CHR 0xC5, CHR 0xB8, CHR 0xC5, CHR 0xBD, CHR 0xE2, CHR 0x80, CHR 0xB0]
   \<and> winnerAnnouncement (showBattleResults (sampleResult\<lparr>winner := ''Draw''\<rparr>) pageLoaded)
     = [CHR 0xC3, CHR 0xB0, CHR 0xC5, CHR 0xB8, CHR 0xC2, CHR 0xA4]
       @ '' It'' @ [CHR 0x27] @ ''s a draw! ''
       @ [CHR 0xC3, CHR 0xB0, CHR 0xC5, CHR 0xB8, CHR 0xC2, CHR 0xA4]
   \<and> summaryStats (showBattleResults sampleResult pageLoaded)
     = [CHR 0x0A] @ ''        <p><strong>Duration:</strong> 1 turns</p>''
       @ [CHR 0x0A] @ ''        <p><strong>Winner:</strong> pikachu</p>''
       @ [CHR 0x0A] @ ''        <p><strong>Final HP:</strong></p>''
       @ [CHR 0x0A] @ ''        <ul>''
       @ [CHR 0x0A] @ ''            <li>pikachu: 95/95</li>''
       @ [CHR 0x0A] @ ''            <li>charmander: 0/31</li>''
       @ [CHR 0x0A] @ ''        </ul>''
       @ [CHR 0x0A] @ ''    ''
   \<and> summaryStats (showBattleResults (sampleResult\<lparr>winner := ''Draw''\<rparr>) pageLoaded)
     = [CHR 0x0A] @ ''        <p><strong>Duration:</strong> 1 turns</p>''
       @ [CHR 0x0A] @ ''        <p><strong>Winner:</strong> Draw</p>''
       @ [CHR 0x0A] @ ''        <p><strong>Final HP:</strong></p>''
       @ [CHR 0x0A] @ ''        <ul>''
       @ [CHR 0x0A] @ ''            <li>pikachu: 95/95</li>''
       @ [CHR 0x0A] @ ''            <li>charmander: 0/31</li>''
       @ [CHR 0x0A] @ ''        </ul>''
       @ [CHR 0x0A] @ ''    ''"
proof -
  have n: "numberToString 1 = ''1''" "numberToString 95 = ''95''"
    "numberToString 0 = ''0''" "numberToString 31 = ''31''"
    by (simp_all add: numberToString_def decimalDigits.simps digit_char_def)
  have w: "winner sampleResult \<noteq> ''Draw''" "winner (sampleResult\<lparr>winner := ''Draw''\<rparr>) = ''Draw''"
    by (simp_all add: sampleResult_def)
  show ?thesis
    using showBattleResults_announcement [of sampleResult pageLoaded]
      showBattleResults_announcement [of "sampleResult\<lparr>winner := ''Draw''\<rparr>" pageLoaded] w
    by (simp add: sampleResult_def n partyPopper_def handshake_def newline_def indent_def
        numeral_eq_Suc)
qed

text \<open>
  C9. For every call of \<open>startBattle\<close> while \<open>battleState.battleInProgress\<close> is true,
  whatever the server would answer, the call returns with the page unchanged apart from the
  text and the display of the error message: no request is sent, no battle is started,
  and \<open>battleInProgress\<close> and \<open>currentBattle\<close> keep their values.
\<close>

theorem startBattle_in_progress:
  assumes "battleInProgress s"
  shows "startBattle response s
           = (None, s\<lparr>errorText := ''Battle already in progress'',
                       errorMessage_display := ''flex''\<rparr>)
     \<and> fetched (snd (startBattle response s)) = fetched s
     \<and> battleInProgress (snd (startBattle response s))
     \<and> currentBattle (snd (startBattle response s)) = currentBattle s
     \<and> battleLog (snd (startBattle response s)) = battleLog s
     \<and> battleArena_display (snd (startBattle response s)) = battleArena_display s
     \<and> battleSetup_display (snd (startBattle response s)) = battleSetup_display s"
  using assms by (simp add: startBattle_def showError_def)

theorem startBattle_in_progress_witness:
  "errorText (snd (startBattle (Resolved (Succeeded sampleResult))
                     (pageLoaded\<lparr>battleInProgress := True\<rparr>)))
     = ''Battle already in progress''
   \<and> fetched (snd (startBattle (Resolved (Succeeded sampleResult))
                     (pageLoaded\<lparr>battleInProgress := True\<rparr>))) = []
   \<and> battleLog (snd (startBattle (Resolved (Succeeded sampleResult))
                     (pageLoaded\<lparr>battleInProgress := True\<rparr>))) = []
   \<and> currentBattle (snd (startBattle (Resolved (Succeeded sampleResult))
                     (pageLoaded\<lparr>battleInProgress := True\<rparr>))) = None"
  using startBattle_in_progress
      [of "pageLoaded\<lparr>battleInProgress := True\<rparr>" "Resolved (Succeeded sampleResult)"]
  by (simp add: pageLoaded_def pageAtLoad_def)

text \<open>
  C10. After \<open>updateStatusEffects(pokemonNumber, status)\<close> for one of the two sides, the
  status display of that side holds exactly one badge, showing \<open>status.condition\<close> in
  upper case, if and only if \<open>status\<close> is present and its condition is not \<open>none\<close>;
  otherwise it is empty. The display of the other side is not touched.
\<close>

theorem updateStatusEffects_badge:
  assumes "pokemonNumber = 1 \<or> pokemonNumber = 2"
  shows "fst (updateStatusEffects pokemonNumber st s) = None
     \<and> statusEffects (snd (updateStatusEffects pokemonNumber st s)) pokemonNumber
         = (case st of
              None \<Rightarrow> []
            | Some x \<Rightarrow>
                if condition x \<noteq> ''none''
                then [\<lparr>tagName = ''span'', className = ''status-badge'',
                       textContent = toUpperCase (condition x)\<rparr>]
                else [])
     \<and> (length (statusEffects (snd (updateStatusEffects pokemonNumber st s)) pokemonNumber) = 1)
         = (\<exists>x. st = Some x \<and> condition x \<noteq> ''none'')
     \<and> (statusEffects (snd (updateStatusEffects pokemonNumber st s)) pokemonNumber = [])
         = (\<not> (\<exists>x. st = Some x \<and> condition x \<noteq> ''none''))
     \<and> (\<forall>other. other \<noteq> pokemonNumber \<longrightarrow>
           statusEffects (snd (updateStatusEffects pokemonNumber st s)) other
             = statusEffects s other)"
  using assms
  by (cases st) (auto simp: updateStatusEffects_def sideElement_def Let_def statusBadge_def)

theorem updateStatusEffects_badge_witness:
  "statusEffects (snd (updateStatusEffects 2 (Some \<lparr>condition = ''burn''\<rparr>) pageLoaded)) 2
     = [\<lparr>tagName = ''span'', className = ''status-badge'', textContent = ''BURN''\<rparr>]
   \<and> statusEffects (snd (updateStatusEffects 1 (Some \<lparr>condition = ''none''\<rparr>) pageLoaded)) 1
     = []
   \<and> statusEffects (snd (updateStatusEffects 1 None pageLoaded)) 1 = []"
proof -
  have up: "toUpperCase ''burn'' = ''BURN''"
    by code_simp
  show ?thesis
    using updateStatusEffects_badge [of 2 "Some \<lparr>condition = ''burn''\<rparr>" pageLoaded]
      updateStatusEffects_badge [of 1 "Some \<lparr>condition = ''none''\<rparr>" pageLoaded]
      updateStatusEffects_badge [of 1 None pageLoaded]
    by (simp add: up)
qed

end
